theory Spec2Isabelle
  imports Complex_Main
begin

section \<open>Stock price prediction: forecasting models and data acquisition\<close>

text \<open>
  A shallow embedding of \<^verbatim>\<open>utils/prediction_models.py\<close> (class
  \<^verbatim>\<open>StockPredictionModels\<close>) and of \<^verbatim>\<open>utils/data_utils.py\<close> (class
  \<^verbatim>\<open>StockDataFetcher\<close>).

  Conventions of the embedding.
  \<^item> A price series (a one-dimensional numpy array of floats) is a \<open>real list\<close>.
    Arithmetic is exact: the rounding of IEEE doubles is not modelled, so \<open>0.3\<close> is the
    rational \<open>3/10\<close> and \<open>1 - 0.3\<close> is \<open>7/10\<close>.
  \<^item> A Python exception is the \<open>Inl\<close> branch of a sum; a returned value is \<open>Inr\<close>.
  \<^item> The tuple \<^verbatim>\<open>(predictions, rmse, mae)\<close> a model returns is a triple of options,
    \<open>None\<close> standing for Python's \<^verbatim>\<open>None\<close>.
  \<^item> Code that lives in external libraries and is not part of the repository (the
    scikit-learn scaler and regressors, the keras network, the quote download, the numpy
    random generator, the pandas date index) is taken as a parameter: a record of
    functions that may raise.
    The error metrics, \<^verbatim>\<open>np.cumsum\<close>, \<^verbatim>\<open>np.exp\<close>, \<^verbatim>\<open>np.sqrt\<close> and the construction of
    a data frame are written out.
  \<^item> A calendar day is an integer, its proleptic Gregorian ordinal (day 1 is 0001-01-01,
    as \<^verbatim>\<open>date.toordinal\<close> counts); \<^verbatim>\<open>datetime.now()\<close> is an argument of the function
    that reads it. The date arithmetic of the standard library is written out with its
    range checks; \<^verbatim>\<open>pd.date_range\<close> is a parameter like the other library calls.
  \<^item> Only exceptions derived from \<^verbatim>\<open>Exception\<close> are modelled (no interrupts, no
    exhaustion of memory).
\<close>

subsection \<open>Exceptions and results\<close>

datatype error = IndexError | ValueError | OverflowError | OutOfBoundsDatetime | LibraryError

type_synonym forecast_result = "real list option \<times> real option \<times> real option"

definition absent :: forecast_result where
  \<comment> \<open>\<^verbatim>\<open>return None, None, None\<close>\<close>
  "absent = (None, None, None)"

subsection \<open>Slices, the 80/20 split and the error metrics\<close>

definition py_slice :: "'a list \<Rightarrow> nat \<Rightarrow> nat \<Rightarrow> 'a list" where
  \<comment> \<open>\<^verbatim>\<open>xs[a:b]\<close> for non-negative bounds\<close>
  "py_slice xs a b = take (b - a) (drop a xs)"

definition py_tail :: "'a list \<Rightarrow> nat \<Rightarrow> 'a list" where
  \<comment> \<open>\<^verbatim>\<open>xs[-k:]\<close> for positive \<open>k\<close>: the last \<open>k\<close> elements, all of them when there are fewer\<close>
  "py_tail xs k = drop (length xs - k) xs"

definition split_index :: "nat \<Rightarrow> nat" where
  \<comment> \<open>\<^verbatim>\<open>int(n * 0.8)\<close>: truncation of four fifths of \<open>n\<close> (the double product
      \<open>n * 0.8\<close> truncates to this integer for every length an array can have)\<close>
  "split_index n = (4 * n) div 5"

definition first_of :: "'a list \<Rightarrow> error + 'a" where
  \<comment> \<open>\<^verbatim>\<open>xs[0]\<close>; IndexError on an empty array\<close>
  "first_of xs = (case xs of [] \<Rightarrow> Inl IndexError | x # _ \<Rightarrow> Inr x)"

definition mean_squared_error :: "real list \<Rightarrow> real list \<Rightarrow> error + real" where
  \<comment> \<open>sklearn.metrics.mean_squared_error: ValueError on empty input or on inputs of
      different lengths, else the mean of the squared differences\<close>
  "mean_squared_error y_true y_pred =
     (if y_true = [] then Inl ValueError
      else if length y_true = length y_pred
      then Inr (sum_list (map (\<lambda>(a, b). (a - b)\<^sup>2) (zip y_true y_pred)) / real (length y_true))
      else Inl ValueError)"

definition mean_absolute_error :: "real list \<Rightarrow> real list \<Rightarrow> error + real" where
  \<comment> \<open>sklearn.metrics.mean_absolute_error, with the same input validation\<close>
  "mean_absolute_error y_true y_pred =
     (if y_true = [] then Inl ValueError
      else if length y_true = length y_pred
      then Inr (sum_list (map (\<lambda>(a, b). \<bar>a - b\<bar>) (zip y_true y_pred)) / real (length y_true))
      else Inl ValueError)"

subsection \<open>The external learning library\<close>

text \<open>
  \<open>'sc\<close> is a fitted MinMaxScaler, \<open>'net\<close> a trained keras network, \<open>'lin\<close> a fitted
  LinearRegression and \<open>'rf\<close> a fitted RandomForestRegressor. A two-dimensional input
  (one row per sample) is a list of rows; the single-feature inputs of the scaler and of
  the linear regression are lists of numbers.
\<close>

record ('sc, 'net, 'lin, 'rf) library =
  fit_transform :: "real list \<Rightarrow> error + ('sc \<times> real list)"
  inverse_transform :: "'sc \<Rightarrow> real list \<Rightarrow> error + real list"
  lstm_fit :: "real list list \<Rightarrow> real list \<Rightarrow> error + 'net"
  lstm_predict :: "'net \<Rightarrow> real list list \<Rightarrow> error + real list"
  linear_fit :: "real list \<Rightarrow> real list \<Rightarrow> error + 'lin"
  linear_predict :: "'lin \<Rightarrow> real list \<Rightarrow> error + real list"
  forest_fit :: "real list list \<Rightarrow> real list \<Rightarrow> error + 'rf"
  forest_predict :: "'rf \<Rightarrow> real list list \<Rightarrow> error + real list"

subsection \<open>Window construction\<close>

text \<open>
  The loop of \<^verbatim>\<open>prepare_data\<close> and the inline loop of \<^verbatim>\<open>predict_random_forest\<close>:
  \<^verbatim>\<open>for i in range(lookback, len(xs)): X.append(xs[i-lookback:i]); y.append(xs[i])\<close>.
  The index \<open>i\<close> is below \<open>length xs\<close> by the bounds of the range. The lookback is a
  window length, a natural number (the callers pass 60 and 10).
\<close>

definition window_step ::
  "real list \<Rightarrow> nat \<Rightarrow> real list list \<times> real list \<Rightarrow> nat \<Rightarrow> real list list \<times> real list" where
  "window_step xs lookback Xy i =
     (fst Xy @ [py_slice xs (i - lookback) i], snd Xy @ [xs ! i])"

definition windows :: "real list \<Rightarrow> nat \<Rightarrow> real list list \<times> real list" where
  "windows xs lookback = foldl (window_step xs lookback) ([], []) [lookback..<length xs]"

definition prepare_data ::
  "('sc, 'net, 'lin, 'rf) library \<Rightarrow> real list \<Rightarrow> nat \<Rightarrow>
     error + ('sc \<times> real list list \<times> real list)" where
  \<comment> \<open>returns the fitted scaler (the new value of \<^verbatim>\<open>self.scaler\<close>) with \<open>X\<close> and \<open>y\<close>\<close>
  "prepare_data lib data lookback =
     (case fit_transform lib data of
        Inl e \<Rightarrow> Inl e
      | Inr (sc, scaled_data) \<Rightarrow> Inr (sc, windows scaled_data lookback))"

subsection \<open>The recurrent forecaster\<close>

definition bind :: "error + 'a \<Rightarrow> ('a \<Rightarrow> error + 'b) \<Rightarrow> error + 'b" where
  \<comment> \<open>sequencing of statements: an exception raised by the first leaves the function,
      a value is handed to the rest of the body\<close>
  "bind r f = (case r of Inl e \<Rightarrow> Inl e | Inr x \<Rightarrow> f x)"

fun lstm_rollout ::
  "('sc, 'net, 'lin, 'rf) library \<Rightarrow> 'sc \<Rightarrow> 'net \<Rightarrow> nat \<Rightarrow> real list \<Rightarrow> real list \<Rightarrow>
     error + real list" where
  "lstm_rollout lib sc model 0 last_sequence future_predictions = Inr future_predictions"
| "lstm_rollout lib sc model (Suc n) last_sequence future_predictions =
     bind (lstm_predict lib model [last_sequence]) (\<lambda>out.
     bind (first_of out) (\<lambda>next_pred.
     bind (inverse_transform lib sc [next_pred]) (\<lambda>unscaled.
     bind (first_of unscaled) (\<lambda>price.
       lstm_rollout lib sc model n (tl last_sequence @ [next_pred])
         (future_predictions @ [price])))))"

definition predict_lstm ::
  "('sc, 'net, 'lin, 'rf) library \<Rightarrow> real list \<Rightarrow> int \<Rightarrow> error + forecast_result" where
  "predict_lstm lib data days_to_predict =
     (let lookback = 60 in
      bind (prepare_data lib data lookback) (\<lambda>(sc, X, y).
        if length X < 10 then Inr absent
        else
          let split_idx = split_index (length X);
              X_train = take split_idx X; X_test = drop split_idx X;
              y_train = take split_idx y; y_test = drop split_idx y
          in
          bind (lstm_fit lib X_train y_train) (\<lambda>model.
          bind (lstm_predict lib model X_train) (\<lambda>train_predict.
          bind (lstm_predict lib model X_test) (\<lambda>test_predict.
          bind (inverse_transform lib sc train_predict) (\<lambda>train_predict'.
          bind (inverse_transform lib sc test_predict) (\<lambda>test_predict'.
          bind (inverse_transform lib sc y_test) (\<lambda>y_test_actual.
          bind (mean_squared_error y_test_actual test_predict') (\<lambda>mse.
          bind (mean_absolute_error y_test_actual test_predict') (\<lambda>mae.
          bind (lstm_rollout lib sc model (nat days_to_predict) (last X) []) (\<lambda>future_predictions.
            Inr (Some future_predictions, Some (sqrt mse), Some mae))))))))))))"

subsection \<open>The linear trend forecaster\<close>

definition arange :: "int \<Rightarrow> int \<Rightarrow> real list" where
  \<comment> \<open>\<^verbatim>\<open>np.arange(a, b)\<close>: the integers from \<open>a\<close> up to \<open>b - 1\<close>, none when \<open>b \<le> a\<close>\<close>
  "arange a b = map real_of_int [a..b - 1]"

definition predict_linear_regression ::
  "('sc, 'net, 'lin, 'rf) library \<Rightarrow> real list \<Rightarrow> int \<Rightarrow> error + forecast_result" where
  "predict_linear_regression lib data days_to_predict =
     (let X = arange 0 (int (length data));
          y = data;
          split_idx = split_index (length X);
          X_train = take split_idx X; X_test = drop split_idx X;
          y_train = take split_idx y; y_test = drop split_idx y
      in
      bind (linear_fit lib X_train y_train) (\<lambda>model.
      bind (linear_predict lib model X_test) (\<lambda>y_pred.
      bind (mean_squared_error y_test y_pred) (\<lambda>mse.
      bind (mean_absolute_error y_test y_pred) (\<lambda>mae.
      bind (linear_predict lib model
              (arange (int (length data)) (int (length data) + days_to_predict)))
        (\<lambda>future_predictions.
          Inr (Some future_predictions, Some (sqrt mse), Some mae)))))))"

subsection \<open>The windowed ensemble forecaster\<close>

fun forest_rollout ::
  "('sc, 'net, 'lin, 'rf) library \<Rightarrow> 'rf \<Rightarrow> nat \<Rightarrow> real list \<Rightarrow> real list \<Rightarrow>
     error + real list" where
  "forest_rollout lib model 0 last_sequence future_predictions = Inr future_predictions"
| "forest_rollout lib model (Suc n) last_sequence future_predictions =
     bind (forest_predict lib model [last_sequence]) (\<lambda>out.
     bind (first_of out) (\<lambda>next_pred.
       forest_rollout lib model n (tl last_sequence @ [next_pred])
         (future_predictions @ [next_pred])))"

definition predict_random_forest ::
  "('sc, 'net, 'lin, 'rf) library \<Rightarrow> real list \<Rightarrow> int \<Rightarrow> error + forecast_result" where
  "predict_random_forest lib data days_to_predict =
     (let lookback = 10;
          Xy = windows data lookback;
          X = fst Xy; y = snd Xy
      in
      if length X < 10 then Inr absent
      else
        let split_idx = split_index (length X);
            X_train = take split_idx X; X_test = drop split_idx X;
            y_train = take split_idx y; y_test = drop split_idx y
        in
        bind (forest_fit lib X_train y_train) (\<lambda>model.
        bind (forest_predict lib model X_test) (\<lambda>y_pred.
        bind (mean_squared_error y_test y_pred) (\<lambda>mse.
        bind (mean_absolute_error y_test y_pred) (\<lambda>mae.
        bind (forest_rollout lib model (nat days_to_predict) (py_tail data lookback) [])
          (\<lambda>future_predictions.
            Inr (Some future_predictions, Some (sqrt mse), Some mae)))))))"

subsection \<open>The exponential smoothing forecaster\<close>

definition alpha :: real where
  "alpha = 0.3"

definition smooth_step :: "real list \<Rightarrow> real list \<Rightarrow> nat \<Rightarrow> real list" where
  \<comment> \<open>\<^verbatim>\<open>result.append(alpha * data[i] + (1 - alpha) * result[i-1])\<close>\<close>
  "smooth_step data result i = result @ [alpha * data ! i + (1 - alpha) * result ! (i - 1)]"

definition smoothed :: "real list \<Rightarrow> real list" where
  \<comment> \<open>the list \<^verbatim>\<open>result\<close> after the smoothing loop, for a non-empty \<open>data\<close>; the loop
      index stays below \<open>length data\<close>, and \<open>i - 1\<close> below the length of \<open>result\<close>\<close>
  "smoothed data = foldl (smooth_step data) [data ! 0] [1..<length data]"

fun arima_rollout :: "real \<Rightarrow> nat \<Rightarrow> real \<Rightarrow> real list \<Rightarrow> real list" where
  "arima_rollout last_actual 0 last_value future_predictions = future_predictions"
| "arima_rollout last_actual (Suc n) last_value future_predictions =
     (let next_pred = alpha * last_actual + (1 - alpha) * last_value
      in arima_rollout last_actual n next_pred (future_predictions @ [next_pred]))"

definition predict_arima_simple :: "real list \<Rightarrow> int \<Rightarrow> error + forecast_result" where
  \<comment> \<open>\<^verbatim>\<open>data[0]\<close> raises IndexError on an empty array; \<^verbatim>\<open>data[-1]\<close> is the last element\<close>
  "predict_arima_simple data days_to_predict =
     (if data = [] then Inl IndexError
      else
        let result = smoothed data;
            split_idx = split_index (length data);
            y_test = drop split_idx data;
            y_pred = drop split_idx result
        in
        bind (mean_squared_error y_test (take (length y_test) y_pred)) (\<lambda>mse.
        bind (mean_absolute_error y_test (take (length y_test) y_pred)) (\<lambda>mae.
          Inr (Some (arima_rollout (last data) (nat days_to_predict) (last result) []),
               Some (sqrt mse), Some mae))))"

subsection \<open>The orchestrator\<close>

definition predict_all_models ::
  "('sc, 'net, 'lin, 'rf) library \<Rightarrow> real list \<Rightarrow> int \<Rightarrow>
     error + (string \<rightharpoonup> forecast_result)" where
  \<comment> \<open>the dictionary display evaluates the four calls in order; an exception of a call
      leaves the display, since no \<^verbatim>\<open>try\<close> surrounds it\<close>
  "predict_all_models lib data days_to_predict =
     bind (predict_lstm lib data days_to_predict) (\<lambda>r_lstm.
     bind (predict_linear_regression lib data days_to_predict) (\<lambda>r_linear.
     bind (predict_random_forest lib data days_to_predict) (\<lambda>r_forest.
     bind (predict_arima_simple data days_to_predict) (\<lambda>r_arima.
       Inr (Map.empty(''lstm'' \<mapsto> r_lstm, ''linear'' \<mapsto> r_linear,
              ''random_forest'' \<mapsto> r_forest, ''arima'' \<mapsto> r_arima))))))"

subsection \<open>Data frames and the outside world\<close>

text \<open>
  A table of daily quotes, one list per column. A calendar day is its ordinal (an
  integer); \<open>strftime\<close> renders it as \<^verbatim>\<open>YYYY-MM-DD\<close>.
\<close>

record dataframe =
  Date :: "string list"
  Open :: "real list"
  High :: "real list"
  Low :: "real list"
  Close :: "real list"
  Volume :: "int list"
  Adj_Close :: "real list"

definition nrows :: "dataframe \<Rightarrow> nat" where
  \<comment> \<open>\<^verbatim>\<open>len(data)\<close>\<close>
  "nrows df = length (Close df)"

definition DataFrame ::
  "string list \<Rightarrow> real list \<Rightarrow> real list \<Rightarrow> real list \<Rightarrow> real list \<Rightarrow> int list \<Rightarrow> real list \<Rightarrow>
     error + dataframe" where
  \<comment> \<open>\<^verbatim>\<open>pd.DataFrame({...})\<close>: ValueError unless all columns have the same length\<close>
  "DataFrame date opn high low cls volume adj =
     (if length opn = length date \<and> length high = length date \<and> length low = length date \<and>
         length cls = length date \<and> length volume = length date \<and> length adj = length date
      then Inr \<lparr>Date = date, Open = opn, High = high, Low = low, Close = cls,
                 Volume = volume, Adj_Close = adj\<rparr>
      else Inl ValueError)"

text \<open>
  What the process cannot compute by itself: the quote source (\<open>download\<close> answers the
  call number \<open>attempt\<close> with an exception, with \<^verbatim>\<open>None\<close>, or with a table that may be
  empty), the normalisation of a downloaded table (\<^verbatim>\<open>reset_index\<close> and the rewriting of
  its Date column, which may raise), the rendering of a day, the hash of a string, fixed
  for the lifetime of the process, and \<^verbatim>\<open>pd.date_range(end=e, periods=n, freq='D')\<close>,
  here \<open>date_range e n\<close>: the index of the \<open>n\<close> days that end with \<open>e\<close>, or an exception
  (for a negative \<open>n\<close>, or when the range leaves the bounds of the library's timestamps).
\<close>

record environment =
  download :: "string \<Rightarrow> string \<Rightarrow> string \<Rightarrow> nat \<Rightarrow> error + dataframe option"
  reset_index :: "dataframe \<Rightarrow> error + dataframe"
  strftime :: "int \<Rightarrow> string"
  hash :: "string \<Rightarrow> int"
  date_range :: "int \<Rightarrow> int \<Rightarrow> error + int list"

text \<open>
  The numpy global generator: \<open>seed\<close> builds its state from a seed, each of the other
  functions draws one number and advances the state.
\<close>

record 'g generator =
  seed :: "nat \<Rightarrow> 'g"
  normal :: "real \<Rightarrow> real \<Rightarrow> 'g \<Rightarrow> real \<times> 'g"
  uniform :: "real \<Rightarrow> real \<Rightarrow> 'g \<Rightarrow> real \<times> 'g"
  randint :: "int \<Rightarrow> int \<Rightarrow> 'g \<Rightarrow> int \<times> 'g"

text \<open>The mutable state of the process: the generator's state and the waits slept so far.\<close>

record 'g process =
  random_state :: 'g
  sleeps :: "nat list"

definition bind_st ::
  "('s \<Rightarrow> (error + 'a) \<times> 's) \<Rightarrow> ('a \<Rightarrow> 's \<Rightarrow> (error + 'b) \<times> 's) \<Rightarrow> 's \<Rightarrow> (error + 'b) \<times> 's" where
  \<comment> \<open>sequencing with state: an exception keeps the state reached so far\<close>
  "bind_st m f s = (case m s of (Inl e, s') \<Rightarrow> (Inl e, s') | (Inr x, s') \<Rightarrow> f x s')"

fun draw :: "('g \<Rightarrow> 'a \<times> 'g) \<Rightarrow> nat \<Rightarrow> 'g \<Rightarrow> 'a list \<times> 'g" where
  "draw f 0 g = ([], g)"
| "draw f (Suc n) g =
     (let xg = f g; rest = draw f n (snd xg) in (fst xg # fst rest, snd rest))"

definition np_random ::
  "('g \<Rightarrow> 'a \<times> 'g) \<Rightarrow> int \<Rightarrow> 'g process \<Rightarrow> (error + 'a list) \<times> 'g process" where
  \<comment> \<open>\<^verbatim>\<open>np.random.f(..., size)\<close>: ValueError on a negative size \<open>sz\<close>, else \<open>sz\<close> draws\<close>
  "np_random f sz st =
     (if sz < 0 then (Inl ValueError, st)
      else let xg = draw f (nat sz) (random_state st)
           in (Inr (fst xg), st\<lparr>random_state := snd xg\<rparr>))"

subsection \<open>The synthetic fallback\<close>

definition base_price :: "string \<Rightarrow> real" where
  "base_price symbol =
     (case map_of [(''AAPL'', 150), (''GOOGL'', 140), (''MSFT'', 380),
                   (''AMZN'', 170), (''TSLA'', 240), (''META'', 300),
                   (''NFLX'', 450), (''NVDA'', 875), (''AMD'', 140), (''INTC'', 35)] symbol of
        Some p \<Rightarrow> p
      | None \<Rightarrow> 100)"

fun cumsum_from :: "real \<Rightarrow> real list \<Rightarrow> real list" where
  "cumsum_from acc [] = []"
| "cumsum_from acc (x # xs) = (acc + x) # cumsum_from (acc + x) xs"

definition cumsum :: "real list \<Rightarrow> real list" where
  "cumsum xs = cumsum_from 0 xs"

definition scale_by :: "real list \<Rightarrow> real list \<Rightarrow> real list" where
  \<comment> \<open>\<^verbatim>\<open>prices * (1 + u)\<close>, element by element\<close>
  "scale_by prices u = map (\<lambda>(p, x). p * (1 + x)) (zip prices u)"

definition demo_columns ::
  "environment \<Rightarrow> 'g generator \<Rightarrow> int list \<Rightarrow> string \<Rightarrow> int \<Rightarrow> 'g process \<Rightarrow>
     (error + dataframe) \<times> 'g process" where
  \<comment> \<open>lines 81 to 104 of \<^verbatim>\<open>generate_demo_data\<close>, after the date index \<open>dates\<close> is built:
      the reseeding, the draws in the order of the source, and the table. Python's
      \<^verbatim>\<open>%\<close> with a positive modulus is the non-negative remainder, as \<open>mod\<close> on \<open>int\<close>\<close>
  "demo_columns env gen dates symbol days st =
     (let st1 = st\<lparr>random_state := seed gen (nat (hash env symbol mod 2 ^ 32))\<rparr>;
          base = base_price symbol
      in
      bind_st (np_random (normal gen 0.0005 0.02) days) (\<lambda>returns.
      bind_st (np_random (uniform gen (- 0.01) 0.01) days) (\<lambda>u_open.
      bind_st (np_random (uniform gen 0.01 0.03) days) (\<lambda>u_high.
      bind_st (np_random (uniform gen (- 0.03) (- 0.01)) days) (\<lambda>u_low.
      bind_st (np_random (randint gen 50000000 100000000) days) (\<lambda>volume.
        let prices = map (\<lambda>c. base * exp c) (cumsum returns)
        in (\<lambda>s. (DataFrame (map (strftime env) dates) (scale_by prices u_open)
                    (scale_by prices u_high) (scale_by prices u_low) prices volume prices, s))
      ))))) st1)"

definition generate_demo_data ::
  "environment \<Rightarrow> 'g generator \<Rightarrow> int \<Rightarrow> string \<Rightarrow> int \<Rightarrow> 'g process \<Rightarrow>
     (error + dataframe) \<times> 'g process" where
  \<comment> \<open>\<open>now\<close> is the day \<^verbatim>\<open>datetime.now()\<close> reads; an exception of \<^verbatim>\<open>pd.date_range\<close>
      leaves the function before the generator is reseeded\<close>
  "generate_demo_data env gen now symbol days st =
     (let end_date = now in
      case date_range env end_date days of
        Inl e \<Rightarrow> (Inl e, st)
      | Inr dates \<Rightarrow> demo_columns env gen dates symbol days st)"

subsection \<open>Fetching with retries\<close>

definition timedelta :: "int \<Rightarrow> error + int" where
  \<comment> \<open>\<^verbatim>\<open>timedelta(days=days)\<close>: OverflowError beyond 999999999 days in magnitude\<close>
  "timedelta days =
     (if days < - 999999999 \<or> 999999999 < days then Inl OverflowError else Inr days)"

definition datetime_minus :: "int \<Rightarrow> int \<Rightarrow> error + int" where
  \<comment> \<open>\<^verbatim>\<open>end_date - delta\<close> for a delta of whole days: OverflowError when the result is
      before 0001-01-01 (day 1) or after 9999-12-31 (day 3652059)\<close>
  "datetime_minus end_date delta =
     (if end_date - delta < 1 \<or> 3652059 < end_date - delta then Inl OverflowError
      else Inr (end_date - delta))"

definition attempt_body ::
  "environment \<Rightarrow> string \<Rightarrow> string \<Rightarrow> string \<Rightarrow> nat \<Rightarrow> error + dataframe option" where
  \<comment> \<open>the body of the inner \<^verbatim>\<open>try\<close> up to its \<^verbatim>\<open>return\<close>: \<open>Inr (Some d)\<close> is the
      returned table, \<open>Inr None\<close> the fall through \<^verbatim>\<open>No data received\<close>\<close>
  "attempt_body env symbol start_str end_str attempt =
     bind (download env symbol start_str end_str attempt) (\<lambda>data.
       case data of
         None \<Rightarrow> Inr None
       | Some d \<Rightarrow>
           if 0 < nrows d then bind (reset_index env d) (\<lambda>d'. Inr (Some d'))
           else Inr None)"

definition backoff :: "int \<Rightarrow> nat \<Rightarrow> 'g process \<Rightarrow> 'g process" where
  \<comment> \<open>\<^verbatim>\<open>if attempt < retries - 1: wait_time = (attempt + 1) * 5; time.sleep(wait_time)\<close>\<close>
  "backoff retries attempt st =
     (if int attempt < retries - 1
      then (let wait_time = (attempt + 1) * 5 in st\<lparr>sleeps := sleeps st @ [wait_time]\<rparr>)
      else st)"

fun attempt_loop ::
  "environment \<Rightarrow> string \<Rightarrow> string \<Rightarrow> string \<Rightarrow> int \<Rightarrow> nat list \<Rightarrow> 'g process \<Rightarrow>
     dataframe option \<times> 'g process" where
  "attempt_loop env symbol start_str end_str retries [] st = (None, st)"
| "attempt_loop env symbol start_str end_str retries (attempt # rest) st =
     (case attempt_body env symbol start_str end_str attempt of
        Inr (Some data) \<Rightarrow> (Some data, st)
      | Inr None \<Rightarrow>
          attempt_loop env symbol start_str end_str retries rest (backoff retries attempt st)
      | Inl e \<Rightarrow>
          attempt_loop env symbol start_str end_str retries rest (backoff retries attempt st))"

definition try_body ::
  "environment \<Rightarrow> int \<Rightarrow> string \<Rightarrow> int \<Rightarrow> int \<Rightarrow> 'g process \<Rightarrow>
     (error + dataframe option) \<times> 'g process" where
  \<comment> \<open>lines 16 to 60, the outer \<^verbatim>\<open>try\<close> up to the call of the fallback: \<open>Inl\<close> is an
      exception of the date arithmetic, \<open>Inr (Some data)\<close> the table an attempt returns,
      \<open>Inr None\<close> the end of the loop without data\<close>
  "try_body env now symbol days retries st =
     (let end_date = now in
      case bind (timedelta days) (datetime_minus end_date) of
        Inl e \<Rightarrow> (Inl e, st)
      | Inr start_date \<Rightarrow>
          (let start_str = strftime env start_date;
               end_str = strftime env end_date;
               looped = attempt_loop env symbol start_str end_str retries [0..<nat retries] st
           in (Inr (fst looped), snd looped)))"

definition fetch_stock_data ::
  "environment \<Rightarrow> 'g generator \<Rightarrow> int \<Rightarrow> int \<Rightarrow> string \<Rightarrow> int \<Rightarrow> int \<Rightarrow> 'g process \<Rightarrow>
     (error + dataframe) \<times> 'g process" where
  \<comment> \<open>\<open>now\<close> is the day read at the start of the call, \<open>now_fb\<close> the day the fallback
      reads later; the handler of the outer \<^verbatim>\<open>try\<close> catches the exceptions of the date
      arithmetic and of the first fallback, and runs the fallback\<close>
  "fetch_stock_data env gen now now_fb symbol days retries st =
     (let attempted = try_body env now symbol days retries st
      in
      case fst attempted of
        Inl e \<Rightarrow> generate_demo_data env gen now_fb symbol days (snd attempted)
      | Inr tried \<Rightarrow>
          (case tried of
             Some data \<Rightarrow> (Inr data, snd attempted)
           | None \<Rightarrow>
               (let fallback = generate_demo_data env gen now_fb symbol days (snd attempted)
                in case fst fallback of
                     Inr data \<Rightarrow> fallback
                   | Inl e \<Rightarrow> generate_demo_data env gen now_fb symbol days (snd fallback))))"

subsection \<open>Concrete stand-ins for the outside world\<close>

text \<open>
  Small executable instances of the parameters, on which the functions above can be run:
  a library whose scaler is the identity and whose fitted models predict \<open>0\<close> for every
  row, the same library with a forest that fails to fit, a world whose quote source is
  out of reach and whose date index has the bounds of nanosecond timestamps (from
  1677-09-22, day 612412, to 2262-04-11, day 825914), and a degenerate generator that
  returns the mean or the lower bound and counts its draws.
\<close>

definition naive_library :: "(unit, unit, unit, unit) library" where
  "naive_library =
     \<lparr>fit_transform = (\<lambda>xs. Inr ((), xs)),
      inverse_transform = (\<lambda>sc xs. Inr xs),
      lstm_fit = (\<lambda>X y. Inr ()),
      lstm_predict = (\<lambda>model X. Inr (map (\<lambda>row. 0) X)),
      linear_fit = (\<lambda>X y. Inr ()),
      linear_predict = (\<lambda>model X. Inr (map (\<lambda>x. 0) X)),
      forest_fit = (\<lambda>X y. Inr ()),
      forest_predict = (\<lambda>model X. Inr (map (\<lambda>row. 0) X))\<rparr>"

definition failing_forest_library :: "(unit, unit, unit, unit) library" where
  "failing_forest_library = naive_library\<lparr>forest_fit := (\<lambda>X y. Inl LibraryError)\<rparr>"

fun decimal :: "nat \<Rightarrow> string" where
  "decimal n =
     (if n < 10 then [char_of (48 + n)] else decimal (n div 10) @ [char_of (48 + n mod 10)])"

definition bounded_date_range :: "int \<Rightarrow> int \<Rightarrow> error + int list" where
  "bounded_date_range end_date periods =
     (if periods < 0 then Inl OverflowError
      else if 825914 < end_date \<or> (0 < periods \<and> end_date - periods + 1 < 612412)
      then Inl OutOfBoundsDatetime
      else Inr [end_date - periods + 1..end_date])"

definition offline :: environment where
  "offline =
     \<lparr>download = (\<lambda>symbol start_str end_str attempt. Inl LibraryError),
      reset_index = (\<lambda>d. Inr d),
      strftime = (\<lambda>day. decimal (nat day)),
      hash = (\<lambda>symbol. int (length symbol)),
      date_range = bounded_date_range\<rparr>"

definition counting_generator :: "nat generator" where
  "counting_generator =
     \<lparr>seed = (\<lambda>s. s),
      normal = (\<lambda>mu sigma g. (mu, Suc g)),
      uniform = (\<lambda>lo hi g. (lo, Suc g)),
      randint = (\<lambda>lo hi g. (lo, Suc g))\<rparr>"

definition fresh_process :: "nat process" where
  "fresh_process = \<lparr>random_state = 0, sleeps = []\<rparr>"

section \<open>Properties of the exponential smoothing forecaster\<close>

lemma smooth_prefix_snoc:
  "foldl (smooth_step data) [data ! 0] [Suc 0..<Suc (Suc n)] =
     smooth_step data (foldl (smooth_step data) [data ! 0] [Suc 0..<Suc n]) (Suc n)"
  by simp

lemma smooth_prefix_length:
  "length (foldl (smooth_step data) [data ! 0] [Suc 0..<Suc n]) = Suc n"
  by (induction n) (simp_all add: smooth_step_def)

lemma smooth_prefix_nth:
  "i \<le> n \<Longrightarrow> foldl (smooth_step data) [data ! 0] [Suc 0..<Suc n] ! i =
     foldl (smooth_step data) [data ! 0] [Suc 0..<Suc i] ! i"
proof (induction n)
  case 0
  then show ?case by simp
next
  case (Suc n)
  show ?case
  proof (cases "i = Suc n")
    case True
    then show ?thesis by simp
  next
    case False
    with Suc.prems have le: "i \<le> n" by simp
    have "foldl (smooth_step data) [data ! 0] [Suc 0..<Suc (Suc n)] ! i =
          foldl (smooth_step data) [data ! 0] [Suc 0..<Suc n] ! i"
      unfolding smooth_prefix_snoc using le
      by (simp add: smooth_step_def nth_append smooth_prefix_length del: upt_Suc)
    with Suc.IH [OF le] show ?thesis by simp
  qed
qed

lemma smoothed_length: "data \<noteq> [] \<Longrightarrow> length (smoothed data) = length data"
proof -
  assume "data \<noteq> []"
  then obtain n where n: "length data = Suc n" by (cases data) auto
  show ?thesis unfolding smoothed_def n One_nat_def by (rule smooth_prefix_length)
qed

lemma smoothed_first: "data \<noteq> [] \<Longrightarrow> smoothed data ! 0 = data ! 0"
proof -
  assume "data \<noteq> []"
  then obtain n where n: "length data = Suc n" by (cases data) auto
  have "smoothed data ! 0 = foldl (smooth_step data) [data ! 0] [Suc 0..<Suc 0] ! 0"
    unfolding smoothed_def n One_nat_def by (rule smooth_prefix_nth) simp
  then show ?thesis by simp
qed

lemma smoothed_step:
  assumes "1 \<le> i" "i < length data"
  shows "smoothed data ! i = alpha * data ! i + (1 - alpha) * smoothed data ! (i - 1)"
proof -
  from assms obtain n where n: "length data = Suc n" by (cases data) auto
  from assms obtain j where j: "i = Suc j" by (cases i) auto
  let ?S = "\<lambda>m. foldl (smooth_step data) [data ! 0] [Suc 0..<Suc m]"
  have a: "smoothed data ! i = ?S i ! i"
    unfolding smoothed_def n One_nat_def using assms n by (intro smooth_prefix_nth) simp
  have b: "smoothed data ! j = ?S j ! j"
    unfolding smoothed_def n One_nat_def using assms n j by (intro smooth_prefix_nth) simp
  have "?S (Suc j) ! Suc j = alpha * data ! Suc j + (1 - alpha) * ?S j ! j"
    unfolding smooth_prefix_snoc
    by (simp add: smooth_step_def nth_append smooth_prefix_length del: upt_Suc)
  with a b j show ?thesis by simp
qed

lemma arima_rollout_acc:
  "arima_rollout d n v fp = fp @ arima_rollout d n v []"
proof (induction n arbitrary: v fp)
  case 0
  then show ?case by simp
next
  case (Suc n)
  show ?case
    using Suc.IH [of "alpha * d + (1 - alpha) * v" "fp @ [alpha * d + (1 - alpha) * v]"]
          Suc.IH [of "alpha * d + (1 - alpha) * v" "[alpha * d + (1 - alpha) * v]"]
    by (simp add: Let_def)
qed

lemma arima_rollout_Suc:
  "arima_rollout d (Suc n) v [] =
     (alpha * d + (1 - alpha) * v) # arima_rollout d n (alpha * d + (1 - alpha) * v) []"
  using arima_rollout_acc [of d n "alpha * d + (1 - alpha) * v" "[alpha * d + (1 - alpha) * v]"]
  by (simp add: Let_def)

lemma arima_rollout_length: "length (arima_rollout d n v []) = n"
  by (induction n arbitrary: v) (simp_all add: arima_rollout_Suc del: arima_rollout.simps(2))

lemma arima_rollout_nth:
  "k < n \<Longrightarrow> arima_rollout d n v [] ! k =
     alpha * d + (1 - alpha) * (if k = 0 then v else arima_rollout d n v [] ! (k - 1))"
proof (induction n arbitrary: v k)
  case 0
  then show ?case by simp
next
  case (Suc n)
  show ?case
  proof (cases k)
    case 0
    then show ?thesis by (simp add: arima_rollout_Suc del: arima_rollout.simps(2))
  next
    case (Suc j)
    with Suc.prems have "j < n" by simp
    from Suc.IH [OF this, of "alpha * d + (1 - alpha) * v"] Suc
    show ?thesis
      by (cases j) (simp_all add: arima_rollout_Suc del: arima_rollout.simps(2))
  qed
qed

lemma split_index_less: "0 < n \<Longrightarrow> split_index n < n"
  by (simp add: split_index_def)

lemma arima_returns:
  assumes "data \<noteq> []"
  shows "\<exists>rmse mae. predict_arima_simple data h =
     Inr (Some (arima_rollout (last data) (nat h) (last (smoothed data)) []), Some rmse, Some mae)"
proof -
  have lt: "split_index (length data) < length data"
    using assms by (simp add: split_index_less)
  then show ?thesis
    using assms
    by (simp add: predict_arima_simple_def Let_def bind_def mean_squared_error_def
        mean_absolute_error_def smoothed_length)
qed

lemma arima_step_contracts:
  "\<bar>(alpha * d + (1 - alpha) * v) - d\<bar> \<le> \<bar>v - d\<bar>"
proof -
  have eq: "(alpha * d + (1 - alpha) * v) - d = (7 / 10) * (v - d)"
    by (simp add: alpha_def algebra_simps)
  have "\<bar>(7 / 10) * (v - d)\<bar> = \<bar>7 / 10 :: real\<bar> * \<bar>v - d\<bar>"
    by (rule abs_mult)
  also have "\<dots> \<le> \<bar>v - d\<bar>"
    using abs_ge_zero [of "v - d"] by simp
  finally show ?thesis unfolding eq .
qed

text \<open>
  C4. For every non-empty series, \<open>predict_arima_simple\<close> returns a full triple; its
  smoothed series has the length of the input and obeys \<open>s[0] = price[0]\<close>,
  \<open>s[i] = 0.3 * price[i] + 0.7 * s[i-1]\<close>; and it returns \<open>horizon\<close> predictions, each
  \<open>0.3 * (last actual price) + 0.7 * (previous value)\<close>, where the previous value of the
  first prediction is the last smoothed value and the last actual price is the same at
  every step.
\<close>

theorem arima_exact_recurrence:
  assumes "data \<noteq> []"
  shows "\<exists>preds rmse mae.
     predict_arima_simple data h = Inr (Some preds, Some rmse, Some mae) \<and>
     length (smoothed data) = length data \<and>
     smoothed data ! 0 = data ! 0 \<and>
     (\<forall>i. 1 \<le> i \<and> i < length data \<longrightarrow>
        smoothed data ! i = 0.3 * data ! i + 0.7 * smoothed data ! (i - 1)) \<and>
     length preds = nat h \<and>
     (\<forall>k. k < nat h \<longrightarrow>
        preds ! k = 0.3 * last data +
          0.7 * (if k = 0 then last (smoothed data) else preds ! (k - 1)))"
proof -
  let ?preds = "arima_rollout (last data) (nat h) (last (smoothed data)) []"
  from arima_returns [OF assms, of h] obtain rmse mae where
    ret: "predict_arima_simple data h = Inr (Some ?preds, Some rmse, Some mae)" by blast
  have s: "\<forall>i. 1 \<le> i \<and> i < length data \<longrightarrow>
        smoothed data ! i = 0.3 * data ! i + 0.7 * smoothed data ! (i - 1)"
    using smoothed_step [of _ data] by (simp add: alpha_def)
  have p: "\<forall>k. k < nat h \<longrightarrow>
        ?preds ! k = 0.3 * last data +
          0.7 * (if k = 0 then last (smoothed data) else ?preds ! (k - 1))"
    using arima_rollout_nth [of _ "nat h" "last data" "last (smoothed data)"]
    by (simp add: alpha_def)
  from ret s p smoothed_length [OF assms] smoothed_first [OF assms]
    arima_rollout_length [of "last data" "nat h" "last (smoothed data)"]
  show ?thesis by blast
qed

theorem arima_exact_recurrence_witness:
  "[10, 20] \<noteq> ([] :: real list) \<and>
   smoothed [10, 20] = [10, 13] \<and>
   (\<exists>rmse mae. predict_arima_simple [10, 20] 2 = Inr (Some [151 / 10, 1657 / 100], Some rmse, Some mae))"
proof -
  have ne: "[10, 20] \<noteq> ([] :: real list)" by simp
  have sm: "smoothed [10, 20] = [10, 13]"
    by (simp add: smoothed_def smooth_step_def alpha_def)
  from arima_exact_recurrence [OF ne, of 2] obtain preds rmse mae where
    ret: "predict_arima_simple [10, 20] 2 = Inr (Some preds, Some rmse, Some mae)" and
    len: "length preds = nat 2" and
    rec: "\<forall>k. k < nat 2 \<longrightarrow>
        preds ! k = 0.3 * last [10, 20 :: real] +
          0.7 * (if k = 0 then last (smoothed [10, 20]) else preds ! (k - 1))"
    by blast
  from len obtain a b where ab: "preds = [a, b]"
    by (cases preds; cases "tl preds"; cases "tl (tl preds)") auto
  from rec [rule_format, of 0] ab sm have a: "a = 151 / 10" by simp
  from rec [rule_format, of 1] ab a have b: "b = 1657 / 100" by simp
  from ret ab a b ne sm show ?thesis by blast
qed

section \<open>Properties of the window construction and of the guards\<close>

lemma window_step_parts:
  "fst (window_step xs lb Xy i) = fst Xy @ [py_slice xs (i - lb) i]"
  "snd (window_step xs lb Xy i) = snd Xy @ [xs ! i]"
  by (simp_all add: window_step_def)

lemma window_fold_snoc:
  "foldl (window_step xs lb) ([], []) [lb..<lb + Suc m] =
     window_step xs lb (foldl (window_step xs lb) ([], []) [lb..<lb + m]) (lb + m)"
  by simp

lemma window_fold_length:
  "length (fst (foldl (window_step xs lb) ([], []) [lb..<lb + m])) = m \<and>
   length (snd (foldl (window_step xs lb) ([], []) [lb..<lb + m])) = m"
proof (induction m)
  case 0
  then show ?case by simp
next
  case (Suc m)
  then show ?case
    unfolding window_fold_snoc by (simp add: window_step_parts)
qed


lemma windows_as_fold:
  "lb \<le> length xs \<Longrightarrow>
   windows xs lb = foldl (window_step xs lb) ([], []) [lb..<lb + (length xs - lb)]"
  by (simp add: windows_def)

lemma windows_empty: "length xs \<le> lb \<Longrightarrow> windows xs lb = ([], [])"
  by (simp add: windows_def)

lemma windows_length:
  "length (fst (windows xs lb)) = length xs - lb \<and> length (snd (windows xs lb)) = length xs - lb"
proof (cases "lb \<le> length xs")
  case True
  then show ?thesis
    by (simp only: windows_as_fold window_fold_length)
next
  case False
  then show ?thesis by (simp add: windows_empty)
qed






section \<open>Which models can return the absent result\<close>

lemma linear_full_or_raises:
  "(\<exists>e. predict_linear_regression lib data h = Inl e) \<or>
   (\<exists>p r m. predict_linear_regression lib data h = Inr (Some p, Some r, Some m))"
  by (auto simp add: predict_linear_regression_def Let_def bind_def split: sum.splits)

lemma arima_full_or_raises:
  "(\<exists>e. predict_arima_simple data h = Inl e) \<or>
   (\<exists>p r m. predict_arima_simple data h = Inr (Some p, Some r, Some m))"
  by (auto simp add: predict_arima_simple_def Let_def bind_def split: sum.splits)

text \<open>
  C10. \<open>predict_arima_simple\<close> and \<open>predict_linear_regression\<close> have no insufficient-data
  guard: on every input each of them either raises or returns a triple with all three
  fields present, never \<open>(None, None, None)\<close>; and \<open>predict_arima_simple\<close> raises
  IndexError on the empty series.
\<close>

theorem no_guard_in_arima_and_linear:
  "((\<exists>e. predict_arima_simple data h = Inl e) \<or>
    (\<exists>p r m. predict_arima_simple data h = Inr (Some p, Some r, Some m))) \<and>
   ((\<exists>e. predict_linear_regression lib data h = Inl e) \<or>
    (\<exists>p r m. predict_linear_regression lib data h = Inr (Some p, Some r, Some m))) \<and>
   predict_arima_simple data h \<noteq> Inr absent \<and>
   predict_linear_regression lib data h \<noteq> Inr absent \<and>
   predict_arima_simple [] h = Inl IndexError"
proof -
  have a: "predict_arima_simple data h \<noteq> Inr absent"
    using arima_full_or_raises [of data h] by (auto simp add: absent_def)
  have l: "predict_linear_regression lib data h \<noteq> Inr absent"
    using linear_full_or_raises [of lib data h] by (auto simp add: absent_def)
  have e: "predict_arima_simple [] h = Inl IndexError"
    by (simp add: predict_arima_simple_def)
  from a l e arima_full_or_raises [of data h] linear_full_or_raises [of lib data h]
  show ?thesis by blast
qed

theorem no_guard_in_arima_and_linear_witness:
  "predict_arima_simple [] 30 = Inl IndexError \<and>
   predict_arima_simple [10, 20] 30 \<noteq> Inr (None, None, None) \<and>
   predict_linear_regression naive_library [10, 20] 30 \<noteq> Inr (None, None, None)"
  using no_guard_in_arima_and_linear [of "[]" 30 naive_library]
    no_guard_in_arima_and_linear [of "[10, 20]" 30 naive_library]
  by (simp add: absent_def)

section \<open>Properties of the orchestrator\<close>

lemma predict_all_models_returns:
  assumes "predict_lstm lib data h = Inr a"
    and "predict_linear_regression lib data h = Inr b"
    and "predict_random_forest lib data h = Inr c"
    and "predict_arima_simple data h = Inr d"
  shows "predict_all_models lib data h =
     Inr (Map.empty(''lstm'' \<mapsto> a, ''linear'' \<mapsto> b, ''random_forest'' \<mapsto> c, ''arima'' \<mapsto> d))"
  using assms by (simp add: predict_all_models_def bind_def)

lemma predict_all_models_raises:
  assumes "predict_lstm lib data h = Inl e \<or> predict_linear_regression lib data h = Inl e \<or>
     predict_random_forest lib data h = Inl e \<or> predict_arima_simple data h = Inl e"
  shows "\<exists>e'. predict_all_models lib data h = Inl e'"
  using assms by (auto simp add: predict_all_models_def bind_def split: sum.splits)

text \<open>
  C1, as the code has it. When each of the four models returns (a forecast, or the absent
  result of the insufficient-data guard), \<open>predict_all_models\<close> returns a mapping with
  exactly the four keys, each bound to the result of its model. When any of the four
  models raises, \<open>predict_all_models\<close> raises as well and returns no mapping; this is
  always so on the empty series.
\<close>

theorem predict_all_models_all_or_nothing:
  "(\<forall>a b c d.
      predict_lstm lib data h = Inr a \<and> predict_linear_regression lib data h = Inr b \<and>
      predict_random_forest lib data h = Inr c \<and> predict_arima_simple data h = Inr d \<longrightarrow>
      (\<exists>m. predict_all_models lib data h = Inr m \<and>
         dom m = {''lstm'', ''linear'', ''random_forest'', ''arima''} \<and>
         m ''lstm'' = Some a \<and> m ''linear'' = Some b \<and>
         m ''random_forest'' = Some c \<and> m ''arima'' = Some d)) \<and>
   (\<forall>e. predict_lstm lib data h = Inl e \<or> predict_linear_regression lib data h = Inl e \<or>
      predict_random_forest lib data h = Inl e \<or> predict_arima_simple data h = Inl e \<longrightarrow>
      (\<exists>e'. predict_all_models lib data h = Inl e')) \<and>
   (\<exists>e. predict_all_models lib [] h = Inl e)"
proof (intro conjI allI impI)
  fix a b c d
  assume "predict_lstm lib data h = Inr a \<and> predict_linear_regression lib data h = Inr b \<and>
      predict_random_forest lib data h = Inr c \<and> predict_arima_simple data h = Inr d"
  then have eq: "predict_all_models lib data h =
     Inr (Map.empty(''lstm'' \<mapsto> a, ''linear'' \<mapsto> b, ''random_forest'' \<mapsto> c, ''arima'' \<mapsto> d))"
    by (intro predict_all_models_returns) simp_all
  show "\<exists>m. predict_all_models lib data h = Inr m \<and>
         dom m = {''lstm'', ''linear'', ''random_forest'', ''arima''} \<and>
         m ''lstm'' = Some a \<and> m ''linear'' = Some b \<and>
         m ''random_forest'' = Some c \<and> m ''arima'' = Some d"
    unfolding eq by auto
next
  fix e
  assume "predict_lstm lib data h = Inl e \<or> predict_linear_regression lib data h = Inl e \<or>
      predict_random_forest lib data h = Inl e \<or> predict_arima_simple data h = Inl e"
  then show "\<exists>e'. predict_all_models lib data h = Inl e'"
    by (rule predict_all_models_raises)
next
  have "predict_arima_simple [] h = Inl IndexError"
    by (simp add: predict_arima_simple_def)
  then show "\<exists>e. predict_all_models lib [] h = Inl e"
    by (intro predict_all_models_raises [of lib "[]" h IndexError]) simp
qed

theorem predict_all_models_all_or_nothing_witness:
  "predict_lstm naive_library [1, 2, 3, 4, 5] 3 = Inr (None, None, None) \<and>
   predict_random_forest naive_library [1, 2, 3, 4, 5] 3 = Inr (None, None, None) \<and>
   (\<exists>m p r e p' r' e'. predict_all_models naive_library [1, 2, 3, 4, 5] 3 = Inr m \<and>
      dom m = {''lstm'', ''linear'', ''random_forest'', ''arima''} \<and>
      m ''lstm'' = Some (None, None, None) \<and>
      m ''linear'' = Some (Some p, Some r, Some e) \<and>
      m ''random_forest'' = Some (None, None, None) \<and>
      m ''arima'' = Some (Some p', Some r', Some e'))"
proof -
  let ?d = "[1, 2, 3, 4, 5] :: real list"
  have l: "predict_lstm naive_library ?d 3 = Inr (None, None, None)"
    by (simp add: predict_lstm_def prepare_data_def naive_library_def windows_def bind_def
        absent_def)
  have f: "predict_random_forest naive_library ?d 3 = Inr (None, None, None)"
    by (simp add: predict_random_forest_def windows_def absent_def)
  have "\<exists>p r e. predict_linear_regression naive_library ?d 3 = Inr (Some p, Some r, Some e)"
    by (simp add: predict_linear_regression_def naive_library_def bind_def Let_def
        split_index_def arange_def mean_squared_error_def mean_absolute_error_def)
  then obtain p r e where
    n: "predict_linear_regression naive_library ?d 3 = Inr (Some p, Some r, Some e)" by blast
  have "\<exists>p r e. predict_arima_simple ?d 3 = Inr (Some p, Some r, Some e)"
    using arima_returns [of ?d 3] by blast
  then obtain p' r' e' where
    a: "predict_arima_simple ?d 3 = Inr (Some p', Some r', Some e')" by blast
  note t = predict_all_models_all_or_nothing [of naive_library ?d 3, THEN conjunct1,
      rule_format, of "(None, None, None)" "(Some p, Some r, Some e)" "(None, None, None)"
      "(Some p', Some r', Some e')"]
  from l n f a have "\<exists>m. predict_all_models naive_library ?d 3 = Inr m \<and>
      dom m = {''lstm'', ''linear'', ''random_forest'', ''arima''} \<and>
      m ''lstm'' = Some (None, None, None) \<and>
      m ''linear'' = Some (Some p, Some r, Some e) \<and>
      m ''random_forest'' = Some (None, None, None) \<and>
      m ''arima'' = Some (Some p', Some r', Some e')"
    by (intro t conjI)
  then obtain m where m: "predict_all_models naive_library ?d 3 = Inr m \<and>
      dom m = {''lstm'', ''linear'', ''random_forest'', ''arima''} \<and>
      m ''lstm'' = Some (None, None, None) \<and>
      m ''linear'' = Some (Some p, Some r, Some e) \<and>
      m ''random_forest'' = Some (None, None, None) \<and>
      m ''arima'' = Some (Some p', Some r', Some e')" ..
  show ?thesis
    apply (intro conjI)
      apply (rule l)
     apply (rule f)
    apply (rule exI [of _ m], rule exI [of _ p], rule exI [of _ r], rule exI [of _ e],
        rule exI [of _ p'], rule exI [of _ r'], rule exI [of _ e'])
    apply (rule m)
    done
qed

text \<open>
  The claim as stated fails. With a forest that fails to fit, on a series of 20 points
  the recurrent model reports insufficient data and the linear and smoothing models
  return their forecasts, yet \<open>predict_all_models\<close> raises the forest's exception and
  returns no mapping. On the empty series it raises for every library, because
  \<open>predict_arima_simple\<close> reads \<open>data[0]\<close>.
\<close>

theorem predict_all_models_counterexample:
  "predict_lstm failing_forest_library
     [1, 2, 3, 4, 5, 6, 7, 8, 9, 10, 11, 12, 13, 14, 15, 16, 17, 18, 19, 20] 3 = Inr absent \<and>
   \<not> isl (predict_linear_regression failing_forest_library
     [1, 2, 3, 4, 5, 6, 7, 8, 9, 10, 11, 12, 13, 14, 15, 16, 17, 18, 19, 20] 3) \<and>
   predict_random_forest failing_forest_library
     [1, 2, 3, 4, 5, 6, 7, 8, 9, 10, 11, 12, 13, 14, 15, 16, 17, 18, 19, 20] 3 =
     Inl LibraryError \<and>
   \<not> isl (predict_arima_simple
     [1, 2, 3, 4, 5, 6, 7, 8, 9, 10, 11, 12, 13, 14, 15, 16, 17, 18, 19, 20] 3) \<and>
   predict_all_models failing_forest_library
     [1, 2, 3, 4, 5, 6, 7, 8, 9, 10, 11, 12, 13, 14, 15, 16, 17, 18, 19, 20] 3 =
     Inl LibraryError \<and>
   predict_arima_simple [] 3 = Inl IndexError \<and>
   isl (predict_all_models naive_library [] 3)"
proof -
  let ?d = "[1, 2, 3, 4, 5, 6, 7, 8, 9, 10, 11, 12, 13, 14, 15, 16, 17, 18, 19, 20] :: real list"
  have l: "predict_lstm failing_forest_library ?d 3 = Inr absent"
    by (simp add: predict_lstm_def prepare_data_def failing_forest_library_def
        naive_library_def windows_def bind_def)
  have "\<exists>r. predict_linear_regression failing_forest_library ?d 3 = Inr r"
    by (simp add: predict_linear_regression_def failing_forest_library_def naive_library_def
        bind_def Let_def split_index_def arange_def mean_squared_error_def
        mean_absolute_error_def)
  then obtain r where n: "predict_linear_regression failing_forest_library ?d 3 = Inr r"
    by blast
  have "length (fst (windows ?d 10)) = 10"
    using windows_length [of ?d 10] by simp
  then have f: "predict_random_forest failing_forest_library ?d 3 = Inl LibraryError"
    by (simp add: predict_random_forest_def Let_def failing_forest_library_def
        naive_library_def bind_def)
  from arima_returns [of ?d 3] obtain r' where a: "predict_arima_simple ?d 3 = Inr r'"
    by auto
  from l n f a have all: "predict_all_models failing_forest_library ?d 3 = Inl LibraryError"
    by (simp add: predict_all_models_def bind_def)
  have e: "predict_arima_simple [] 3 = Inl IndexError"
    by (simp add: predict_arima_simple_def)
  from predict_all_models_raises [of naive_library "[]" 3 IndexError] e
  have "isl (predict_all_models naive_library [] 3)" by auto
  with l n f a all e show ?thesis by simp
qed

section \<open>Properties of the synthetic fallback\<close>

lemma draw_length: "length (fst (draw f n g)) = n"
  by (induction n arbitrary: g) (simp_all add: Let_def)

lemma cumsum_from_length: "length (cumsum_from acc xs) = length xs"
  by (induction xs arbitrary: acc) simp_all

lemma np_random_nonneg:
  "0 \<le> sz \<Longrightarrow> np_random f sz st =
     (Inr (fst (draw f (nat sz) (random_state st))),
      st\<lparr>random_state := snd (draw f (nat sz) (random_state st))\<rparr>)"
  by (simp add: np_random_def Let_def)

lemma np_random_negative: "sz < 0 \<Longrightarrow> np_random f sz st = (Inl ValueError, st)"
  by (simp add: np_random_def)

lemma demo_columns_negative:
  "days < 0 \<Longrightarrow> fst (demo_columns env gen dates symbol days st) = Inl ValueError"
  by (simp add: demo_columns_def Let_def bind_st_def np_random_negative)


lemma demo_columns_nonneg:
  assumes "0 \<le> days" "length dates = nat days"
  shows "\<exists>returns u_open u_high u_low volume.
     length returns = nat days \<and> length u_open = nat days \<and> length u_high = nat days \<and>
     length u_low = nat days \<and> length volume = nat days \<and>
     fst (demo_columns env gen dates symbol days st) =
       Inr \<lparr>Date = map (strftime env) dates,
            Open = scale_by (map (\<lambda>c. base_price symbol * exp c) (cumsum returns)) u_open,
            High = scale_by (map (\<lambda>c. base_price symbol * exp c) (cumsum returns)) u_high,
            Low = scale_by (map (\<lambda>c. base_price symbol * exp c) (cumsum returns)) u_low,
            Close = map (\<lambda>c. base_price symbol * exp c) (cumsum returns),
            Volume = volume,
            Adj_Close = map (\<lambda>c. base_price symbol * exp c) (cumsum returns)\<rparr>"
  using assms
  apply (simp add: demo_columns_def Let_def bind_st_def np_random_nonneg)
  apply (simp add: DataFrame_def scale_by_def cumsum_def cumsum_from_length draw_length)
  apply (intro exI conjI)
       prefer 6
       apply (rule refl)
      apply (simp_all add: draw_length)
  done


lemma demo_columns_state:
  "fst (demo_columns env gen dates symbol days st') =
     fst (demo_columns env gen dates symbol days st)"
proof (cases "days < 0")
  case True
  then show ?thesis by (simp add: demo_columns_negative)
next
  case False
  then show ?thesis
    by (simp add: demo_columns_def Let_def bind_st_def np_random_nonneg)
qed

lemma generate_date_error:
  "date_range env now days = Inl e \<Longrightarrow>
   generate_demo_data env gen now symbol days st = (Inl e, st)"
  by (simp add: generate_demo_data_def)

lemma generate_dates:
  "date_range env now days = Inr dates \<Longrightarrow>
   generate_demo_data env gen now symbol days st = demo_columns env gen dates symbol days st"
  by (simp add: generate_demo_data_def)


lemma generate_same_day:
  "fst (generate_demo_data env gen now symbol days st') =
     fst (generate_demo_data env gen now symbol days st)"
proof (cases "date_range env now days")
  case (Inl e)
  then show ?thesis by (simp add: generate_date_error)
next
  case (Inr dates)
  then show ?thesis by (simp only: generate_dates demo_columns_state)
qed

lemma generate_returns:
  assumes "0 \<le> days" "date_range env now days = Inr dates" "length dates = nat days"
  shows "\<exists>df. fst (generate_demo_data env gen now symbol days st) = Inr df \<and>
     Date df = map (strftime env) dates \<and>
     length (Open df) = nat days \<and> length (High df) = nat days \<and>
     length (Low df) = nat days \<and> length (Close df) = nat days \<and>
     length (Volume df) = nat days \<and> length (Adj_Close df) = nat days"
proof -
  from demo_columns_nonneg [OF assms(1) assms(3), of env gen symbol st]
  obtain returns u_open u_high u_low volume where
    len: "length returns = nat days" "length u_open = nat days" "length u_high = nat days"
      "length u_low = nat days" "length volume = nat days" and
    df: "fst (demo_columns env gen dates symbol days st) =
       Inr \<lparr>Date = map (strftime env) dates,
            Open = scale_by (map (\<lambda>c. base_price symbol * exp c) (cumsum returns)) u_open,
            High = scale_by (map (\<lambda>c. base_price symbol * exp c) (cumsum returns)) u_high,
            Low = scale_by (map (\<lambda>c. base_price symbol * exp c) (cumsum returns)) u_low,
            Close = map (\<lambda>c. base_price symbol * exp c) (cumsum returns),
            Volume = volume,
            Adj_Close = map (\<lambda>c. base_price symbol * exp c) (cumsum returns)\<rparr>"
    by blast
  from len show ?thesis
    unfolding generate_dates [OF assms(2)] df
    by (simp add: scale_by_def cumsum_def cumsum_from_length)
qed

text \<open>
  C7, as the code has it. For every symbol and every \<open>days \<ge> 1\<close> for which
  \<^verbatim>\<open>pd.date_range\<close> returns its index (the \<open>days\<close> consecutive days that end with the day
  of the call), \<open>generate_demo_data\<close> returns a non-empty table in which every column has
  exactly \<open>days\<close> entries and whose Date column renders that index in its order, which
  is strictly ascending.
\<close>

theorem generate_demo_data_rows:
  assumes "1 \<le> days" and "date_range env now days = Inr [now - days + 1..now]"
  shows "\<exists>df. fst (generate_demo_data env gen now symbol days st) = Inr df \<and>
     nrows df = nat days \<and> 0 < nrows df \<and>
     length (Date df) = nat days \<and> length (Open df) = nat days \<and>
     length (High df) = nat days \<and> length (Low df) = nat days \<and>
     length (Close df) = nat days \<and> length (Volume df) = nat days \<and>
     length (Adj_Close df) = nat days \<and>
     Date df = map (strftime env) [now - days + 1..now] \<and>
     sorted_wrt (<) [now - days + 1..now] \<and>
     last [now - days + 1..now] = now"
proof -
  from assms(1) have nonneg: "0 \<le> days" by simp
  have len: "length [now - days + 1..now] = nat days" by simp
  from generate_returns [OF nonneg assms(2) len, of gen symbol st]
  obtain df where
    df: "fst (generate_demo_data env gen now symbol days st) = Inr df \<and>
     Date df = map (strftime env) [now - days + 1..now] \<and>
     length (Open df) = nat days \<and> length (High df) = nat days \<and>
     length (Low df) = nat days \<and> length (Close df) = nat days \<and>
     length (Volume df) = nat days \<and> length (Adj_Close df) = nat days" ..
  have l: "last [now - days + 1..now] = now"
    using assms(1) by (simp add: upto_rec2 [of "now - days + 1" now])
  from assms(1) have pos: "0 < nat days" by simp
  from df pos l show ?thesis
    by (intro exI [of _ df]) (simp add: nrows_def)
qed

theorem generate_demo_data_rows_witness:
  "(1 :: int) \<le> 2 \<and>
   date_range offline 739923 2 = Inr [739923 - 2 + 1..739923] \<and>
   (\<exists>df. fst (generate_demo_data offline counting_generator 739923 ''AAPL'' 2 fresh_process) =
        Inr df \<and>
      nrows df = 2 \<and> Date df = map (strftime offline) [739922, 739923])"
proof -
  have h: "(1 :: int) \<le> 2" by simp
  have r: "date_range offline 739923 2 = Inr [739923 - 2 + 1..739923]"
    by (simp add: offline_def bounded_date_range_def)
  have u: "[739923 - 2 + 1..739923] = [739922, 739923 :: int]"
    by (simp add: upto_rec1 [of 739922 739923])
  from generate_demo_data_rows [OF h r, of counting_generator "''AAPL''" fresh_process]
  obtain df where
    a: "fst (generate_demo_data offline counting_generator 739923 ''AAPL'' 2 fresh_process) =
      Inr df" and
    b: "nrows df = nat 2" and
    c: "Date df = map (strftime offline) [739923 - 2 + 1..739923]"
    by blast
  from c have "Date df = map (strftime offline) [739922, 739923]"
    unfolding u .
  with a b h r show ?thesis by simp
qed

text \<open>
  The claim as stated fails at \<open>days = 0\<close>, where the returned table is empty, at a
  negative \<open>days\<close>, where \<^verbatim>\<open>pd.date_range\<close> raises OverflowError, and at a \<open>days\<close> whose
  range leaves the timestamp bounds, where it raises OutOfBoundsDatetime.
\<close>

theorem generate_demo_data_counterexample:
  "fst (generate_demo_data offline counting_generator 739923 ''AAPL'' 0 fresh_process) =
     Inr \<lparr>Date = [], Open = [], High = [], Low = [], Close = [], Volume = [], Adj_Close = []\<rparr> \<and>
   fst (generate_demo_data offline counting_generator 739923 ''AAPL'' (- 1) fresh_process) =
     Inl OverflowError \<and>
   fst (generate_demo_data offline counting_generator 739923 ''AAPL'' 10000000000 fresh_process) =
     Inl OutOfBoundsDatetime"
proof -
  have z: "date_range offline 739923 0 = Inr []"
    by (simp add: offline_def bounded_date_range_def)
  have "fst (demo_columns offline counting_generator [] ''AAPL'' 0 fresh_process) =
     Inr \<lparr>Date = [], Open = [], High = [], Low = [], Close = [], Volume = [], Adj_Close = []\<rparr>"
    by (simp add: demo_columns_def Let_def bind_st_def np_random_def DataFrame_def
        scale_by_def cumsum_def)
  then have a: "fst (generate_demo_data offline counting_generator 739923 ''AAPL'' 0
      fresh_process) =
     Inr \<lparr>Date = [], Open = [], High = [], Low = [], Close = [], Volume = [], Adj_Close = []\<rparr>"
    by (simp only: generate_dates [OF z])
  have "date_range offline 739923 (- 1) = Inl OverflowError"
    by (simp add: offline_def bounded_date_range_def)
  then have b: "fst (generate_demo_data offline counting_generator 739923 ''AAPL'' (- 1)
      fresh_process) = Inl OverflowError"
    by (simp add: generate_date_error)
  have "date_range offline 739923 10000000000 = Inl OutOfBoundsDatetime"
    by (simp add: offline_def bounded_date_range_def)
  then have c: "fst (generate_demo_data offline counting_generator 739923 ''AAPL'' 10000000000
      fresh_process) = Inl OutOfBoundsDatetime"
    by (simp add: generate_date_error)
  from a b c show ?thesis by (intro conjI)
qed

section \<open>Properties of the retry loop\<close>

lemma attempt_loop_Some:
  "fst (attempt_loop env symbol s e retries as st) = Some data \<Longrightarrow>
   \<exists>attempt raw. attempt \<in> set as \<and> download env symbol s e attempt = Inr (Some raw) \<and>
      0 < nrows raw \<and> reset_index env raw = Inr data"
proof (induction as arbitrary: st)
  case Nil
  then show ?case by simp
next
  case (Cons a as)
  show ?case
  proof (cases "attempt_body env symbol s e a")
    case (Inl err)
    with Cons.prems have "fst (attempt_loop env symbol s e retries as (backoff retries a st)) = Some data"
      by simp
    from Cons.IH [OF this] show ?thesis by auto
  next
    case (Inr r)
    show ?thesis
    proof (cases r)
      case None
      with Inr Cons.prems
      have "fst (attempt_loop env symbol s e retries as (backoff retries a st)) = Some data"
        by simp
      from Cons.IH [OF this] show ?thesis by auto
    next
      case (Some d)
      with Inr Cons.prems have d: "d = data" by simp
      from Inr Some d have "attempt_body env symbol s e a = Inr (Some data)" by simp
      then have "\<exists>raw. download env symbol s e a = Inr (Some raw) \<and> 0 < nrows raw \<and>
          reset_index env raw = Inr data"
        by (auto simp add: attempt_body_def bind_def split: sum.splits option.splits if_splits)
      then show ?thesis by auto
    qed
  qed
qed







lemma try_body_overflow:
  "bind (timedelta days) (datetime_minus now) = Inl e \<Longrightarrow>
   try_body env now symbol days retries st = (Inl e, st)"
  by (simp add: try_body_def)

lemma try_body_loop:
  "bind (timedelta days) (datetime_minus now) = Inr start \<Longrightarrow>
   try_body env now symbol days retries st =
     (Inr (fst (attempt_loop env symbol (strftime env start) (strftime env now) retries
        [0..<nat retries] st)),
      snd (attempt_loop env symbol (strftime env start) (strftime env now) retries
        [0..<nat retries] st))"
  by (simp add: try_body_def Let_def)


lemma fetch_fallback:
  assumes "\<forall>data. fst (try_body env now symbol days retries st) \<noteq> Inr (Some data)"
  shows "fst (fetch_stock_data env gen now now_fb symbol days retries st) =
     fst (generate_demo_data env gen now_fb symbol days st)"
proof (cases "fst (try_body env now symbol days retries st)")
  case (Inl e)
  then show ?thesis
    by (simp add: fetch_stock_data_def Let_def generate_same_day)
next
  case (Inr tried)
  with assms have none: "tried = None" by (cases tried) auto
  show ?thesis
  proof (cases "fst (generate_demo_data env gen now_fb symbol days
      (snd (try_body env now symbol days retries st)))")
    case (Inl e)
    with Inr none show ?thesis
      by (simp add: fetch_stock_data_def Let_def generate_same_day)
  next
    case (Inr data)
    with \<open>fst (try_body env now symbol days retries st) = Inr tried\<close> none
    have "fst (fetch_stock_data env gen now now_fb symbol days retries st) =
        fst (generate_demo_data env gen now_fb symbol days
          (snd (try_body env now symbol days retries st)))"
      by (simp add: fetch_stock_data_def Let_def)
    then show ?thesis by (simp only: generate_same_day)
  qed
qed

lemma fetch_real:
  assumes "fst (try_body env now symbol days retries st) = Inr (Some data)"
  shows "fst (fetch_stock_data env gen now now_fb symbol days retries st) = Inr data"
  using assms by (simp add: fetch_stock_data_def Let_def)

lemma try_body_Some:
  assumes "fst (try_body env now symbol days retries st) = Inr (Some data)"
  shows "\<exists>start attempt raw. bind (timedelta days) (datetime_minus now) = Inr start \<and>
     attempt < nat retries \<and>
     download env symbol (strftime env start) (strftime env now) attempt = Inr (Some raw) \<and>
     0 < nrows raw \<and> reset_index env raw = Inr data"
proof (cases "bind (timedelta days) (datetime_minus now)")
  case (Inl e)
  with assms show ?thesis by (simp add: try_body_overflow)
next
  case (Inr start)
  with assms have "fst (attempt_loop env symbol (strftime env start) (strftime env now) retries
        [0..<nat retries] st) = Some data"
    by (simp add: try_body_loop)
  from attempt_loop_Some [OF this] obtain attempt raw where
    a: "attempt \<in> set [0..<nat retries]" and
    r: "download env symbol (strftime env start) (strftime env now) attempt = Inr (Some raw) \<and>
      0 < nrows raw \<and> reset_index env raw = Inr data"
    by auto
  from a have lt: "attempt < nat retries" by simp
  show ?thesis
    apply (rule exI [of _ start], rule exI [of _ attempt], rule exI [of _ raw])
    using Inr lt r by simp
qed


lemma offline_loop:
  "attempt_loop offline symbol s e retries as st =
     (None, st\<lparr>sleeps := sleeps st @
        map (\<lambda>attempt. (attempt + 1) * 5) (filter (\<lambda>attempt. int attempt < retries - 1) as)\<rparr>)"
  by (induction as arbitrary: st)
    (simp_all add: attempt_body_def offline_def bind_def backoff_def Let_def)

lemma offline_try_body:
  assumes "bind (timedelta days) (datetime_minus now) = Inr start"
  shows "fst (try_body offline now symbol days retries st) = Inr None"
  by (simp only: try_body_loop [OF assms] offline_loop fst_conv)




section \<open>Properties of fetching\<close>

text \<open>
  C2, as the code has it. For every symbol, days and retries, \<open>fetch_stock_data\<close> returns
  the normalised non-empty answer of one of the download attempts, or else it ends as
  the fallback generator ends. So it raises nothing and returns a series, real or
  synthetic, wherever \<open>generate_demo_data\<close> returns: for every \<open>days \<ge> 0\<close> for which
  \<^verbatim>\<open>pd.date_range\<close> yields its index of \<open>days\<close> days. The only exception that reaches the
  caller is the one the fallback generator raises.
\<close>

theorem fetch_returns_series:
  "((\<exists>data start attempt raw.
       fst (fetch_stock_data env gen now now_fb symbol days retries st) = Inr data \<and>
       bind (timedelta days) (datetime_minus now) = Inr start \<and>
       attempt < nat retries \<and>
       download env symbol (strftime env start) (strftime env now) attempt = Inr (Some raw) \<and>
       0 < nrows raw \<and> reset_index env raw = Inr data) \<or>
    fst (fetch_stock_data env gen now now_fb symbol days retries st) =
      fst (generate_demo_data env gen now_fb symbol days st)) \<and>
   (\<forall>dates. 0 \<le> days \<and> date_range env now_fb days = Inr dates \<and> length dates = nat days \<longrightarrow>
      (\<exists>data. fst (fetch_stock_data env gen now now_fb symbol days retries st) = Inr data))"
proof -
  have first: "(\<exists>data start attempt raw.
       fst (fetch_stock_data env gen now now_fb symbol days retries st) = Inr data \<and>
       bind (timedelta days) (datetime_minus now) = Inr start \<and>
       attempt < nat retries \<and>
       download env symbol (strftime env start) (strftime env now) attempt = Inr (Some raw) \<and>
       0 < nrows raw \<and> reset_index env raw = Inr data) \<or>
    fst (fetch_stock_data env gen now now_fb symbol days retries st) =
      fst (generate_demo_data env gen now_fb symbol days st)"
  proof (cases "\<exists>data. fst (try_body env now symbol days retries st) = Inr (Some data)")
    case True
    then obtain data where d: "fst (try_body env now symbol days retries st) = Inr (Some data)" ..
    from try_body_Some [OF d] obtain start attempt raw where
      r: "bind (timedelta days) (datetime_minus now) = Inr start \<and>
       attempt < nat retries \<and>
       download env symbol (strftime env start) (strftime env now) attempt = Inr (Some raw) \<and>
       0 < nrows raw \<and> reset_index env raw = Inr data"
      by auto
    from fetch_real [OF d, of gen now_fb]
    have f: "fst (fetch_stock_data env gen now now_fb symbol days retries st) = Inr data" .
    show ?thesis
      apply (rule disjI1)
      apply (rule exI [of _ data], rule exI [of _ start], rule exI [of _ attempt],
          rule exI [of _ raw])
      using f r by simp
  next
    case False
    then have "\<forall>data. fst (try_body env now symbol days retries st) \<noteq> Inr (Some data)"
      by simp
    from fetch_fallback [OF this, of gen now_fb] show ?thesis by (rule disjI2)
  qed
  have second: "\<exists>data. fst (fetch_stock_data env gen now now_fb symbol days retries st) = Inr data"
    if h: "0 \<le> days \<and> date_range env now_fb days = Inr dates \<and> length dates = nat days"
    for dates
  proof -
    from h have h1: "0 \<le> days" and h2: "date_range env now_fb days = Inr dates"
      and h3: "length dates = nat days" by simp_all
    from generate_returns [OF h1 h2 h3, of gen symbol st] obtain df where
      g: "fst (generate_demo_data env gen now_fb symbol days st) = Inr df" by auto
    from first show ?thesis
    proof
      assume "\<exists>data start attempt raw.
       fst (fetch_stock_data env gen now now_fb symbol days retries st) = Inr data \<and>
       bind (timedelta days) (datetime_minus now) = Inr start \<and>
       attempt < nat retries \<and>
       download env symbol (strftime env start) (strftime env now) attempt = Inr (Some raw) \<and>
       0 < nrows raw \<and> reset_index env raw = Inr data"
      then obtain data where
        "fst (fetch_stock_data env gen now now_fb symbol days retries st) = Inr data"
        by auto
      then show ?thesis ..
    next
      assume "fst (fetch_stock_data env gen now now_fb symbol days retries st) =
        fst (generate_demo_data env gen now_fb symbol days st)"
      with g have "fst (fetch_stock_data env gen now now_fb symbol days retries st) = Inr df"
        by simp
      then show ?thesis ..
    qed
  qed
  from first second show ?thesis by (intro conjI allI impI)
qed

theorem fetch_returns_series_witness:
  "(0 :: int) \<le> 2 \<and>
   date_range offline 739923 2 = Inr [739922, 739923] \<and>
   (\<exists>data. fst (fetch_stock_data offline counting_generator 739923 739923 ''AAPL'' 2 3
        fresh_process) = Inr data \<and>
      fst (generate_demo_data offline counting_generator 739923 ''AAPL'' 2 fresh_process) =
        Inr data)"
proof -
  let ?f = "fst (fetch_stock_data offline counting_generator 739923 739923 ''AAPL'' 2 3
        fresh_process)"
  have h: "(0 :: int) \<le> 2" by simp
  have r: "date_range offline 739923 2 = Inr [739922, 739923]"
    by (simp add: offline_def bounded_date_range_def upto_rec1 [of 739922 739923])
  note t = fetch_returns_series [of offline counting_generator 739923 739923 "''AAPL''" 2 3
      fresh_process]
  from t h r have "\<exists>data. ?f = Inr data"
    by (intro t [THEN conjunct2, rule_format, of "[739922, 739923]"]) simp
  then obtain data where d: "?f = Inr data" ..
  have "download offline ''AAPL'' s e attempt \<noteq> Inr (Some raw)" for s e attempt raw
    by (simp add: offline_def)
  with t [THEN conjunct1]
  have "?f = fst (generate_demo_data offline counting_generator 739923 ''AAPL'' 2 fresh_process)"
    by auto
  with d have "fst (generate_demo_data offline counting_generator 739923 ''AAPL'' 2
      fresh_process) = Inr data" by simp
  with d h r show ?thesis by auto
qed

text \<open>
  The claim as stated fails for a negative \<open>days\<close>: no attempt delivers data, the
  fallback raises the OverflowError of \<^verbatim>\<open>pd.date_range\<close> inside the outer \<^verbatim>\<open>try\<close>, the
  handler calls the fallback again, and its exception reaches the caller. It fails also
  for a very large \<open>days\<close>: \<^verbatim>\<open>timedelta\<close> raises OverflowError, the handler calls the
  fallback, and the OutOfBoundsDatetime of \<^verbatim>\<open>pd.date_range\<close> reaches the caller.
\<close>

theorem fetch_counterexample:
  "fst (fetch_stock_data offline counting_generator 739923 739923 ''AAPL'' (- 1) 3
     fresh_process) = Inl OverflowError \<and>
   fst (fetch_stock_data offline counting_generator 739923 739923 ''AAPL'' 10000000000 3
     fresh_process) = Inl OutOfBoundsDatetime"
proof -
  have s: "bind (timedelta (- 1)) (datetime_minus 739923) = Inr 739924"
    by (simp add: timedelta_def datetime_minus_def bind_def)
  from offline_try_body [OF s, of "''AAPL''" 3 fresh_process]
  have "\<forall>data. fst (try_body offline 739923 ''AAPL'' (- 1) 3 fresh_process) \<noteq> Inr (Some data)"
    by simp
  from fetch_fallback [OF this, of counting_generator 739923]
  have a: "fst (fetch_stock_data offline counting_generator 739923 739923 ''AAPL'' (- 1) 3
     fresh_process) = Inl OverflowError"
    by (simp add: generate_date_error offline_def bounded_date_range_def)
  have "bind (timedelta 10000000000) (datetime_minus 739923) = Inl OverflowError"
    by (simp add: timedelta_def bind_def)
  then have "\<forall>data. fst (try_body offline 739923 ''AAPL'' 10000000000 3 fresh_process) \<noteq>
      Inr (Some data)"
    by (simp add: try_body_overflow)
  from fetch_fallback [OF this, of counting_generator 739923]
  have b: "fst (fetch_stock_data offline counting_generator 739923 739923 ''AAPL'' 10000000000 3
     fresh_process) = Inl OutOfBoundsDatetime"
    by (simp add: generate_date_error offline_def bounded_date_range_def)
  from a b show ?thesis by (rule conjI)
qed




end
